theory Spec2Isabelle
  imports Complex_Main
begin

section \<open>JavaScript values used by the bill analyzer hook\<close>

text \<open>
  The hook \<open>useVerizonBillAnalyzer\<close> works on untyped JSON objects. The embedding keeps
  the shape the code reads: every property may be absent (\<open>None\<close> is JavaScript's
  \<open>undefined\<close>), a number is either \<open>NaN\<close> or a numeric value, and the operators
  \<open>||\<close>, \<open>*\<close>, \<open>-\<close>, \<open>+\<close> follow JavaScript: \<open>||\<close> yields its right operand when the
  left one is falsy (\<open>undefined\<close>, \<open>0\<close>, \<open>NaN\<close>, the empty string), and arithmetic on
  \<open>undefined\<close> or \<open>NaN\<close> yields \<open>NaN\<close>. Numeric values are exact reals: rounding and
  overflow of IEEE doubles are outside the model.
\<close>

datatype jsnum = NaN | Num real

fun js_add :: "jsnum \<Rightarrow> jsnum \<Rightarrow> jsnum" where
  "js_add (Num a) (Num b) = Num (a + b)"
| "js_add _ _ = NaN"

fun js_sub :: "jsnum \<Rightarrow> jsnum \<Rightarrow> jsnum" where
  "js_sub (Num a) (Num b) = Num (a - b)"
| "js_sub _ _ = NaN"

fun js_mul :: "jsnum \<Rightarrow> jsnum \<Rightarrow> jsnum" where
  "js_mul (Num a) (Num b) = Num (a * b)"
| "js_mul _ _ = NaN"

text \<open>\<open>ToNumber\<close> of a property read: \<open>undefined\<close> becomes \<open>NaN\<close>.\<close>

fun toNumber :: "jsnum option \<Rightarrow> jsnum" where
  "toNumber None = NaN"
| "toNumber (Some n) = n"

text \<open>\<open>v || d\<close> on a possibly absent number.\<close>

fun orNum :: "jsnum option \<Rightarrow> jsnum \<Rightarrow> jsnum" where
  "orNum (Some (Num x)) d = (if x = 0 then d else Num x)"
| "orNum _ d = d"

text \<open>Truthiness of a possibly absent string, and \<open>v || d\<close> on strings.\<close>

fun truthyStr :: "string option \<Rightarrow> bool" where
  "truthyStr (Some s) = (s \<noteq> [])"
| "truthyStr None = False"

fun orStr :: "string option \<Rightarrow> string \<Rightarrow> string" where
  "orStr (Some s) d = (if s = [] then d else s)"
| "orStr None d = d"

text \<open>\<open>String.prototype.includes\<close>: the pattern occurs as a contiguous substring.\<close>

fun startsWith :: "string \<Rightarrow> string \<Rightarrow> bool" where
  "startsWith [] s = True"
| "startsWith (p # ps) [] = False"
| "startsWith (p # ps) (c # cs) = (p = c \<and> startsWith ps cs)"

fun js_includes :: "string \<Rightarrow> string \<Rightarrow> bool" where
  "js_includes [] p = (p = [])"
| "js_includes (c # cs) p = (startsWith p (c # cs) \<or> js_includes cs p)"

section \<open>Data model\<close>

text \<open>Reading \<open>.length\<close> or calling \<open>.forEach\<close> on \<open>undefined\<close> throws.\<close>

datatype error = TypeError

record BillLineDetails =
  planCost :: "jsnum option"
  planDiscount :: "jsnum option"
  devicePayment :: "jsnum option"
  deviceCredit :: "jsnum option"
  protection :: "jsnum option"
  perks :: "jsnum option"
  perksDiscount :: "jsnum option"
  surcharges :: "jsnum option"
  taxes :: "jsnum option"

record PhoneLine =
  phoneNumber :: "string option"
  deviceName :: "string option"
  ownerName :: "string option"
  planName :: "string option"
  monthlyTotal :: "jsnum option"
  details :: "BillLineDetails option"

record UsageAnalysis =
  trend :: string
  percentageChange :: jsnum
  avg_data_usage_gb :: jsnum
  avg_talk_minutes :: jsnum
  avg_text_messages :: jsnum

record PotentialSaving =
  description :: string
  estimatedSaving :: jsnum

record CostAnalysis =
  averageMonthlyBill :: "jsnum option"
  projectedNextBill :: jsnum
  unusualCharges :: "string list"
  potentialSavings :: "PotentialSaving list"

record AlternativePlan =
  name :: string
  monthlyCost :: jsnum
  pros :: "string list"
  cons :: "string list"
  estimatedSavings :: jsnum

record PlanRecommendation =
  recommendedPlan :: string
  reasons :: "string list"
  estimatedMonthlySavings :: jsnum
  confidenceScore :: jsnum
  alternativePlans :: "AlternativePlan list"

record AccountInfo =
  info_customerName :: "string option"
  info_accountNumber :: "string option"
  info_billingPeriod :: "string option"

text \<open>
  A category object is a JavaScript object keyed by strings, kept as an association list
  in the order of the object literal. The raw record uses the keys \<open>plans\<close>,
  \<open>devices\<close>, \<open>services\<close>, \<open>taxes\<close>; the analysis uses the display names.
\<close>

type_synonym Categories = "(string \<times> jsnum) list"

text \<open>
  \<open>rawData\<close> and \<open>enhancedData\<close> are the same untyped object in the source
  (\<open>{...rawData, ...}\<close>), so one record serves both; a field that is \<open>None\<close> is
  \<open>undefined\<close>.
\<close>

record BillData =
  billVersion :: "string option"
  accountNumber :: "string option"
  billingPeriod :: "string option"
  totalAmount :: "jsnum option"
  usageAnalysis :: "UsageAnalysis option"
  costAnalysis :: "CostAnalysis option"
  planRecommendation :: "PlanRecommendation option"
  phoneLines :: "PhoneLine list option"
  chargesByCategory :: "Categories option"
  ocrProvider :: "string option"
  accountInfo :: "AccountInfo option"
  customerName :: "string option"
  upcomingChanges :: "string list option"
  networkPreference :: "string option"

text \<open>The \<open>useState\<close> cells of the hook.\<close>

record HookState =
  billData :: "BillData option"
  fileSelected :: bool
  isLoading :: bool
  errorMessage :: "string option"
  hook_ocrProvider :: "string option"

record SavingsQuote =
  monthlySavings :: jsnum
  annualSavings :: jsnum
  quote_planName :: string
  price :: jsnum

text \<open>
  The module \<open>@/config/alternativeCarriers\<close> is imported by the hook; its catalog
  \<open>alternativeCarrierPlans\<close> and its resolver \<open>findBestCarrierMatch\<close> are parameters of
  the estimator. A resolver result of \<open>None\<close> stands for any value that is not a string.
\<close>

record CarrierPlan =
  plan_id :: string
  plan_name :: string

record CarrierConfig =
  findBestCarrierMatch :: "string \<Rightarrow> string option"
  alternativeCarrierPlans :: "CarrierPlan list"

section \<open>Category aggregator\<close>

text \<open>
  The body of \<open>phoneLines.forEach\<close> in \<open>calculateChargesByCategory\<close>, threading the three
  accumulators \<open>planCharges\<close>, \<open>devicePayments\<close>, \<open>services\<close>.
\<close>

fun forEachLine :: "PhoneLine list \<Rightarrow> jsnum \<times> jsnum \<times> jsnum \<Rightarrow> jsnum \<times> jsnum \<times> jsnum" where
  "forEachLine [] acc = acc"
| "forEachLine (line # rest) (planCharges, devicePayments, services) =
     (case details line of
        None \<Rightarrow> forEachLine rest (planCharges, devicePayments, services)
      | Some d \<Rightarrow>
          (let planDiscount' = orNum (planDiscount d) (Num 0)
           in forEachLine rest
                (js_add planCharges (js_sub (orNum (planCost d) (Num 0)) planDiscount'),
                 js_add devicePayments
                   (js_sub (orNum (devicePayment d) (Num 0)) (orNum (deviceCredit d) (Num 0))),
                 js_add services (orNum (protection d) (Num 0)))))"

definition calculateChargesByCategory :: "PhoneLine list \<Rightarrow> Categories" where
  "calculateChargesByCategory lines =
     (case forEachLine lines (Num 0, Num 0, Num 0) of
        (planCharges, devicePayments, services) \<Rightarrow>
          [(''Plan Charges'', planCharges),
           (''Device Payments'', devicePayments),
           (''Services & Add-ons'', services),
           (''Taxes & Fees'',
              js_mul (js_add (js_add planCharges devicePayments) services) (Num 0.08))])"

section \<open>Savings estimator\<close>

text \<open>
  \<open>premiumPlans[carrierId]\<close> is a property read on an object literal: besides the three
  own keys it finds the members every object inherits from \<open>Object.prototype\<close>, which
  are truthy and equal to no plan id. The result is \<open>None\<close> for a missing property,
  \<open>Some None\<close> for an inherited member and \<open>Some (Some id)\<close> for an own key.
\<close>

definition objectPrototypeKeys :: "string list" where
  "objectPrototypeKeys =
     [''constructor'', ''__proto__'', ''hasOwnProperty'', ''isPrototypeOf'',
      ''propertyIsEnumerable'', ''toLocaleString'', ''toString'', ''valueOf'',
      ''__defineGetter__'', ''__defineSetter__'', ''__lookupGetter__'', ''__lookupSetter__'']"

definition premiumPlans :: "string \<Rightarrow> string option option" where
  "premiumPlans carrierId =
     (if carrierId = ''darkstar'' then Some (Some ''darkstar-premium'')
      else if carrierId = ''warp'' then Some (Some ''warp-premium'')
      else if carrierId = ''lightspeed'' then Some (Some ''lightspeed-premium'')
      else if carrierId \<in> set objectPrototypeKeys then Some None
      else None)"

definition matchingPlanId :: "CarrierConfig \<Rightarrow> string \<Rightarrow> string option" where
  "matchingPlanId cfg carrierId =
     (case premiumPlans carrierId of
        Some v \<Rightarrow> v
      | None \<Rightarrow> findBestCarrierMatch cfg carrierId)"

definition carrierPlan :: "CarrierConfig \<Rightarrow> string \<Rightarrow> CarrierPlan option" where
  "carrierPlan cfg carrierId =
     (case matchingPlanId cfg carrierId of
        None \<Rightarrow> None
      | Some pid \<Rightarrow> find (\<lambda>plan. plan_id plan = pid) (alternativeCarrierPlans cfg))"

text \<open>\<open>billData.phoneLines?.length || 1\<close>.\<close>

definition numberOfLines :: "BillData \<Rightarrow> nat" where
  "numberOfLines b =
     (case phoneLines b of
        None \<Rightarrow> 1
      | Some ls \<Rightarrow> (if length ls = 0 then 1 else length ls))"

definition calculateCarrierSavings :: "CarrierConfig \<Rightarrow> HookState \<Rightarrow> string \<Rightarrow> SavingsQuote" where
  "calculateCarrierSavings cfg st carrierId =
     (case billData st of
        None \<Rightarrow>
          \<lparr>monthlySavings = Num 0, annualSavings = Num 0, quote_planName = ''N/A'', price = Num 0\<rparr>
      | Some b \<Rightarrow>
          (case carrierPlan cfg carrierId of
             None \<Rightarrow>
               \<lparr>monthlySavings = Num 0, annualSavings = Num 0,
                quote_planName = ''No matching plan'', price = Num 0\<rparr>
           | Some plan \<Rightarrow>
               (let basePricePerLine = Num 44;
                    finalPrice = js_mul basePricePerLine (Num (real (numberOfLines b)));
                    monthlySavings' = js_sub (toNumber (totalAmount b)) finalPrice;
                    annualSavings' = js_mul monthlySavings' (Num 12)
                in \<lparr>monthlySavings = monthlySavings', annualSavings = annualSavings',
                    quote_planName = plan_name plan, price = finalPrice\<rparr>)))"

section \<open>Normalizer\<close>

text \<open>
  The object literals for \<open>usageAnalysis\<close>, \<open>costAnalysis\<close> and \<open>planRecommendation\<close>
  are written twice in \<open>enhanceBillData\<close>, once per branch, with the same text; each is
  one definition here. \<open>monthlyCost\<close> multiplies \<open>rawData.totalAmount\<close> as it is read,
  without the \<open>|| 0\<close> that \<open>costAnalysis\<close> applies.
\<close>

definition defaultUsageAnalysis :: UsageAnalysis where
  "defaultUsageAnalysis =
     \<lparr>trend = ''stable'', percentageChange = Num 0, avg_data_usage_gb = Num 25.4,
      avg_talk_minutes = Num 120, avg_text_messages = Num 85\<rparr>"

definition defaultCostAnalysis :: "BillData \<Rightarrow> CostAnalysis" where
  "defaultCostAnalysis rawData =
     \<lparr>averageMonthlyBill = Some (orNum (totalAmount rawData) (Num 0)),
      projectedNextBill = js_mul (orNum (totalAmount rawData) (Num 0)) (Num 1.05),
      unusualCharges = [],
      potentialSavings =
        [\<lparr>description = ''Switch to autopay discount'', estimatedSaving = Num 50\<rparr>,
         \<lparr>description = ''Consolidate streaming services'', estimatedSaving = Num 25\<rparr>]\<rparr>"

definition defaultPlanRecommendation :: "BillData \<Rightarrow> PlanRecommendation" where
  "defaultPlanRecommendation rawData =
     \<lparr>recommendedPlan = ''Unlimited Plus'',
      reasons =
        [''Better value for multiple lines'',
         ''Includes premium streaming perks'',
         ''Higher mobile hotspot data allowance''],
      estimatedMonthlySavings = Num 96.95,
      confidenceScore = Num 0.8,
      alternativePlans =
        [\<lparr>name = ''Unlimited Welcome'',
          monthlyCost = js_mul (toNumber (totalAmount rawData)) (Num 0.9),
          pros = [''Lower cost'', ''Unlimited data''],
          cons = [''Fewer premium features'', ''Lower priority data''],
          estimatedSavings = Num 64.63\<rparr>]\<rparr>"

definition zeroCategories :: Categories where
  "zeroCategories =
     [(''Plan Charges'', Num 0), (''Device Payments'', Num 0),
      (''Services & Add-ons'', Num 0), (''Taxes & Fees'', Num 0)]"

text \<open>The renaming of the raw category keys, each value read with \<open>|| 0\<close>.\<close>

definition legacyCategories :: "Categories \<Rightarrow> Categories" where
  "legacyCategories c =
     [(''Plan Charges'', orNum (map_of c ''plans'') (Num 0)),
      (''Device Payments'', orNum (map_of c ''devices'') (Num 0)),
      (''Services & Add-ons'', orNum (map_of c ''services'') (Num 0)),
      (''Taxes & Fees'', orNum (map_of c ''taxes'') (Num 0))]"

text \<open>\<open>rawData.accountInfo?.customerName\<close>.\<close>

definition accountCustomerName :: "BillData \<Rightarrow> string option" where
  "accountCustomerName rawData =
     (case accountInfo rawData of None \<Rightarrow> None | Some ai \<Rightarrow> info_customerName ai)"

text \<open>
  \<open>phoneLines.length > 8\<close> guards \<open>slice(0, 8)\<close>. The read of \<open>.length\<close> throws when
  \<open>phoneLines\<close> is \<open>undefined\<close>; that is the \<open>Inl\<close> result of \<open>capPhoneLines\<close> below.
\<close>

definition capLines :: "PhoneLine list \<Rightarrow> PhoneLine list" where
  "capLines ls = (if length ls > 8 then take 8 ls else ls)"

text \<open>
  The test at the head of \<open>enhanceBillData\<close>:
  \<open>rawData.billVersion?.includes("claude-parser") && rawData.phoneLines?.length > 0\<close>.
\<close>

definition isEnhanced :: "BillData \<Rightarrow> bool" where
  "isEnhanced rawData =
     ((case billVersion rawData of None \<Rightarrow> False | Some v \<Rightarrow> js_includes v ''claude-parser'')
      \<and> (case phoneLines rawData of None \<Rightarrow> False | Some ls \<Rightarrow> length ls > 0))"

text \<open>
  Each statement of \<open>enhanceBillData\<close> is one step below, named after what it assigns;
  the two branches compose their steps in the order of the source.
\<close>

definition capPhoneLines :: "BillData \<Rightarrow> error + BillData" where
  "capPhoneLines enhancedData =
     (case phoneLines enhancedData of
        None \<Rightarrow> Inl TypeError
      | Some ls \<Rightarrow> Inr (enhancedData\<lparr>phoneLines := Some (capLines ls)\<rparr>))"

definition claudeDefaults :: "BillData \<Rightarrow> BillData" where
  "claudeDefaults rawData =
     rawData
       \<lparr>totalAmount := Some (orNum (totalAmount rawData) (Num 0)),
        usageAnalysis :=
          Some (case usageAnalysis rawData of Some u \<Rightarrow> u | None \<Rightarrow> defaultUsageAnalysis),
        costAnalysis :=
          Some (case costAnalysis rawData of Some c \<Rightarrow> c | None \<Rightarrow> defaultCostAnalysis rawData),
        planRecommendation :=
          Some (case planRecommendation rawData of
                  Some r \<Rightarrow> r | None \<Rightarrow> defaultPlanRecommendation rawData),
        ocrProvider := Some (orStr (ocrProvider rawData) ''claude'')\<rparr>"

definition claudeCategories :: "BillData \<Rightarrow> BillData \<Rightarrow> BillData" where
  "claudeCategories rawData enhancedData =
     (case chargesByCategory enhancedData of
        None \<Rightarrow> enhancedData\<lparr>chargesByCategory := Some zeroCategories\<rparr>
      | Some _ \<Rightarrow>
          (case chargesByCategory rawData of
             None \<Rightarrow> enhancedData
           | Some c \<Rightarrow> enhancedData\<lparr>chargesByCategory := Some (legacyCategories c)\<rparr>))"

definition enhanceClaude :: "BillData \<Rightarrow> error + BillData" where
  "enhanceClaude rawData =
     capPhoneLines (claudeCategories rawData (claudeDefaults rawData))"

text \<open>
  The first statement of the other branch assigns \<open>rawData.phoneLines\<close> in place when
  the record has no lines; the updated \<open>rawData\<close> is what the rest of the function reads.
\<close>

definition placeholderLine :: "BillData \<Rightarrow> PhoneLine" where
  "placeholderLine rawData =
     \<lparr>phoneNumber = Some ''Primary Line'',
      deviceName = Some ''Smartphone'',
      ownerName = Some (orStr (accountCustomerName rawData) ''Primary Owner''),
      planName = Some ''Verizon Plan'',
      monthlyTotal = Some (orNum (totalAmount rawData) (Num 99.99)),
      details = Some
        \<lparr>planCost = Some (js_mul (orNum (totalAmount rawData) (Num 99.99)) (Num 0.7)),
         planDiscount = Some (Num 0),
         devicePayment = Some (js_mul (orNum (totalAmount rawData) (Num 99.99)) (Num 0.2)),
         deviceCredit = Some (Num 0),
         protection = Some (js_mul (orNum (totalAmount rawData) (Num 99.99)) (Num 0.1)),
         perks = None, perksDiscount = None, surcharges = None, taxes = None\<rparr>\<rparr>"

definition addPlaceholder :: "BillData \<Rightarrow> BillData" where
  "addPlaceholder rawData =
     (case phoneLines rawData of
        None \<Rightarrow> rawData\<lparr>phoneLines := Some [placeholderLine rawData]\<rparr>
      | Some ls \<Rightarrow>
          (if length ls = 0 then rawData\<lparr>phoneLines := Some [placeholderLine rawData]\<rparr>
           else rawData))"

text \<open>\<open>phoneLines.map((line, index) => ...)\<close> with the callback of the source.\<close>

definition ownerCallback :: "BillData \<Rightarrow> PhoneLine \<Rightarrow> nat \<Rightarrow> PhoneLine" where
  "ownerCallback rawData line index =
     (if \<not> truthyStr (ownerName line) \<and> index = 0 \<and> truthyStr (accountCustomerName rawData)
      then line\<lparr>ownerName := accountCustomerName rawData\<rparr>
      else line)"

fun mapIndexed :: "('a \<Rightarrow> nat \<Rightarrow> 'b) \<Rightarrow> nat \<Rightarrow> 'a list \<Rightarrow> 'b list" where
  "mapIndexed f i [] = []"
| "mapIndexed f i (x # xs) = f x i # mapIndexed f (Suc i) xs"

definition cannedLines :: "PhoneLine list" where
  "cannedLines =
     [\<lparr>phoneNumber = Some ''555-123-4567'', deviceName = Some ''iPhone 15'',
       ownerName = None, planName = Some ''Unlimited Plus'', monthlyTotal = Some (Num 85),
       details = Some
         \<lparr>planCost = Some (Num 90), planDiscount = Some (Num 10),
          devicePayment = None, deviceCredit = None, protection = None,
          perks = None, perksDiscount = None, surcharges = None, taxes = None\<rparr>\<rparr>,
      \<lparr>phoneNumber = Some ''555-987-6543'', deviceName = Some ''iPhone 14'',
       ownerName = None, planName = Some ''Unlimited Plus'', monthlyTotal = Some (Num 75),
       details = Some
         \<lparr>planCost = Some (Num 80), planDiscount = Some (Num 10),
          devicePayment = None, deviceCredit = None, protection = None,
          perks = None, perksDiscount = None, surcharges = None, taxes = None\<rparr>\<rparr>]"

definition standardDefaults :: "HookState \<Rightarrow> BillData \<Rightarrow> BillData" where
  "standardDefaults st rawData =
     rawData
       \<lparr>usageAnalysis := Some defaultUsageAnalysis,
        costAnalysis := Some (defaultCostAnalysis rawData),
        planRecommendation := Some (defaultPlanRecommendation rawData),
        ocrProvider :=
          Some (orStr (ocrProvider rawData) (orStr (hook_ocrProvider st) ''standard''))\<rparr>"

definition assignCustomerName :: "BillData \<Rightarrow> BillData \<Rightarrow> BillData" where
  "assignCustomerName rawData enhancedData =
     (if truthyStr (accountCustomerName rawData) then
        (case phoneLines enhancedData of
           None \<Rightarrow> enhancedData
         | Some ls \<Rightarrow>
             enhancedData
               \<lparr>customerName := accountCustomerName rawData,
                phoneLines := Some (mapIndexed (ownerCallback rawData) 0 ls)\<rparr>)
      else enhancedData)"

definition copyUpcomingChanges :: "BillData \<Rightarrow> BillData \<Rightarrow> BillData" where
  "copyUpcomingChanges rawData enhancedData =
     (case upcomingChanges rawData of
        None \<Rightarrow> enhancedData
      | Some u \<Rightarrow>
          (if length u > 0 then enhancedData\<lparr>upcomingChanges := Some u\<rparr> else enhancedData))"

definition standardCategories :: "BillData \<Rightarrow> BillData \<Rightarrow> BillData" where
  "standardCategories rawData enhancedData =
     (case chargesByCategory rawData of
        None \<Rightarrow> enhancedData
      | Some c \<Rightarrow> enhancedData\<lparr>chargesByCategory := Some (legacyCategories c)\<rparr>)"

text \<open>
  The source tests \<open>!phoneLines || !Array.isArray(phoneLines) || phoneLines.length === 0\<close>;
  a \<open>phoneLines\<close> that is present is an array in this model, so the middle test adds
  no case.
\<close>

definition substituteCannedLines :: "BillData \<Rightarrow> BillData" where
  "substituteCannedLines enhancedData =
     (case phoneLines enhancedData of
        None \<Rightarrow> enhancedData\<lparr>phoneLines := Some cannedLines\<rparr>
      | Some ls \<Rightarrow>
          (if length ls = 0 then enhancedData\<lparr>phoneLines := Some cannedLines\<rparr>
           else enhancedData))"

definition enhanceStandard :: "HookState \<Rightarrow> BillData \<Rightarrow> error + BillData" where
  "enhanceStandard st rawData0 =
     (let rawData = addPlaceholder rawData0
      in capPhoneLines
           (substituteCannedLines
              (standardCategories rawData
                 (copyUpcomingChanges rawData
                    (assignCustomerName rawData (standardDefaults st rawData))))))"

text \<open>
  \<open>enhanceBillData\<close> reads the hook's \<open>ocrProvider\<close> cell through its closure, so the
  hook state is an argument. This is the value the function returns on a record with the
  given contents; the assignment to \<open>rawData.phoneLines\<close> also changes the caller's
  object, which \<open>enhanceBillData_call\<close> below adds.
\<close>

definition enhanceBillData :: "HookState \<Rightarrow> BillData \<Rightarrow> error + BillData" where
  "enhanceBillData st rawData =
     (if isEnhanced rawData then enhanceClaude rawData else enhanceStandard st rawData)"

text \<open>
  A call of \<open>enhanceBillData\<close> on an object of the heap. Objects are passed by reference:
  the first statement of the standard branch stores the placeholder in the caller's
  record, and a later call on the same reference reads the stored record. Nothing else
  is written: the spread, \<open>map\<close> and \<open>slice\<close> build new objects. A reference that holds no
  object stands for an \<open>undefined\<close> argument, whose property read throws.
\<close>

type_synonym Heap = "nat \<rightharpoonup> BillData"

definition enhanceBillData_call ::
    "HookState \<Rightarrow> Heap \<Rightarrow> nat \<Rightarrow> Heap \<times> (error + BillData)" where
  "enhanceBillData_call st heap ref =
     (case heap ref of
        None \<Rightarrow> (heap, Inl TypeError)
      | Some rawData \<Rightarrow>
          (if isEnhanced rawData then (heap, enhanceClaude rawData)
           else (heap(ref \<mapsto> addPlaceholder rawData), enhanceStandard st rawData)))"

section \<open>Manual entry\<close>

text \<open>
  \<open>addManualLineCharges\<close> reads the clock three times and, when \<open>manualData.phoneLines\<close>
  is \<open>undefined\<close>, reports the message of the \<open>TypeError\<close> it catches. The readings and
  the message text come from the JavaScript engine and are arguments here. The \<open>null\<close>
  that \<open>networkPreference\<close> falls back to is \<open>None\<close>, like \<open>undefined\<close>.
\<close>

record Env =
  toLocaleDateString_first :: string
  dateNow_toString :: string
  toLocaleDateString_second :: string
  typeErrorMessage :: string

definition manualEnhancedData :: "Env \<Rightarrow> BillData \<Rightarrow> error + BillData" where
  "manualEnhancedData env manualData =
     (case phoneLines manualData of
        None \<Rightarrow> Inl TypeError
      | Some ls \<Rightarrow>
          (let chargesByCategory' = calculateChargesByCategory ls
           in Inr (manualData
             \<lparr>accountNumber := Some ''Manual Entry'',
              billingPeriod := Some (toLocaleDateString_first env),
              billVersion := Some ''Manual Entry v1.0'',
              usageAnalysis := Some
                \<lparr>trend = ''stable'', percentageChange = Num 0, avg_data_usage_gb = Num 15.2,
                 avg_talk_minutes = Num 110, avg_text_messages = Num 75\<rparr>,
              costAnalysis := Some
                \<lparr>averageMonthlyBill = totalAmount manualData,
                 projectedNextBill = js_mul (toNumber (totalAmount manualData)) (Num 1.05),
                 unusualCharges = [],
                 potentialSavings =
                   [\<lparr>description = ''Switch to autopay discount'', estimatedSaving = Num 10\<rparr>,
                    \<lparr>description = ''Consolidate streaming services'',
                     estimatedSaving = Num 15\<rparr>]\<rparr>,
              planRecommendation := Some
                \<lparr>recommendedPlan = ''Unlimited Plus'',
                 reasons =
                   [''Better value for multiple lines'',
                    ''Includes premium streaming perks'',
                    ''Higher mobile hotspot data allowance''],
                 estimatedMonthlySavings = Num 45.95,
                 confidenceScore = Num 0.7,
                 alternativePlans =
                   [\<lparr>name = ''Unlimited Welcome'',
                     monthlyCost = js_mul (toNumber (totalAmount manualData)) (Num 0.85),
                     pros = [''Lower cost'', ''Unlimited data''],
                     cons = [''Fewer premium features'', ''Lower priority data''],
                     estimatedSavings = Num 35.5\<rparr>]\<rparr>,
              chargesByCategory := Some chargesByCategory',
              networkPreference :=
                (if truthyStr (networkPreference manualData) then networkPreference manualData
                 else None),
              accountInfo := Some
                \<lparr>info_customerName = Some ''Manual Entry User'',
                 info_accountNumber = Some (''Manual-'' @ take 6 (dateNow_toString env)),
                 info_billingPeriod = Some (toLocaleDateString_second env)\<rparr>\<rparr>)))"

text \<open>
  The state the hook is left in: \<open>setBillData\<close> on success, \<open>setErrorMessage\<close> in the
  \<open>catch\<close> block, \<open>setIsLoading(false)\<close> in \<open>finally\<close>. \<open>saveBillAnalysis\<close> swallows its
  own failures and changes no cell.
\<close>

definition addManualLineCharges :: "Env \<Rightarrow> HookState \<Rightarrow> BillData \<Rightarrow> HookState" where
  "addManualLineCharges env st manualData =
     (let st = st\<lparr>isLoading := True, errorMessage := None\<rparr>
      in (case manualEnhancedData env manualData of
            Inr enhancedData \<Rightarrow> st\<lparr>billData := Some enhancedData, isLoading := False\<rparr>
          | Inl e \<Rightarrow> st\<lparr>errorMessage := Some (typeErrorMessage env), isLoading := False\<rparr>))"

section \<open>Sample inputs\<close>

text \<open>The record \<open>{}\<close>, and the record \<open>{phoneLines: []}\<close> that passes the upload check.\<close>

definition emptyRecord :: BillData where
  "emptyRecord =
     \<lparr>billVersion = None, accountNumber = None, billingPeriod = None, totalAmount = None,
      usageAnalysis = None, costAnalysis = None, planRecommendation = None, phoneLines = None,
      chargesByCategory = None, ocrProvider = None, accountInfo = None, customerName = None,
      upcomingChanges = None, networkPreference = None\<rparr>"

definition noLinesRecord :: BillData where
  "noLinesRecord = emptyRecord\<lparr>phoneLines := Some []\<rparr>"

definition idleState :: HookState where
  "idleState =
     \<lparr>billData = None, fileSelected = False, isLoading = False, errorMessage = None,
      hook_ocrProvider = None\<rparr>"

text \<open>The hook after an upload whose response named its OCR provider.\<close>

definition claudeState :: HookState where
  "claudeState = idleState\<lparr>fileSelected := True, hook_ocrProvider := Some ''claude''\<rparr>"

definition emptyDetails :: BillLineDetails where
  "emptyDetails =
     \<lparr>planCost = None, planDiscount = None, devicePayment = None, deviceCredit = None,
      protection = None, perks = None, perksDiscount = None, surcharges = None, taxes = None\<rparr>"

text \<open>A line that is told apart by its phone number only.\<close>

definition lineNo :: "string \<Rightarrow> PhoneLine" where
  "lineNo n =
     \<lparr>phoneNumber = Some n, deviceName = None, ownerName = None, planName = None,
      monthlyTotal = None, details = None\<rparr>"

definition tenLines :: "PhoneLine list" where
  "tenLines =
     [lineNo ''0'', lineNo ''1'', lineNo ''2'', lineNo ''3'', lineNo ''4'',
      lineNo ''5'', lineNo ''6'', lineNo ''7'', lineNo ''8'', lineNo ''9'']"

definition tenLinesRecord :: BillData where
  "tenLinesRecord = emptyRecord\<lparr>phoneLines := Some tenLines\<rparr>"

text \<open>
  A record whose category totals disagree with its single line: the bill says 100 for
  plans, the line's plan costs 50.
\<close>

definition fiftyLine :: PhoneLine where
  "fiftyLine = (lineNo ''0'')\<lparr>details := Some (emptyDetails\<lparr>planCost := Some (Num 50)\<rparr>)\<rparr>"

definition mismatchRecord :: BillData where
  "mismatchRecord =
     emptyRecord\<lparr>phoneLines := Some [fiftyLine], totalAmount := Some (Num 100),
                 chargesByCategory := Some [(''plans'', Num 100)]\<rparr>"

text \<open>An enhanced record that carries no category object.\<close>

definition claudeRecord :: BillData where
  "claudeRecord =
     emptyRecord\<lparr>billVersion := Some ''claude-parser-v1'', phoneLines := Some [fiftyLine]\<rparr>"

text \<open>
  A catalog for evaluating the estimator: one plan under the id that \<open>premiumPlans\<close>
  gives for \<open>warp\<close>, and a resolver that sends \<open>verizon\<close> to it.
\<close>

definition sampleConfig :: CarrierConfig where
  "sampleConfig =
     \<lparr>findBestCarrierMatch = (\<lambda>c. if c = ''verizon'' then Some ''warp-premium'' else None),
      alternativeCarrierPlans = [\<lparr>plan_id = ''warp-premium'', plan_name = ''Warp''\<rparr>]\<rparr>"

text \<open>Analyses with no line, with three lines, and with one line on a 30 dollar bill.\<close>

definition noLinesAnalysis :: BillData where
  "noLinesAnalysis = emptyRecord\<lparr>phoneLines := Some [], totalAmount := Some (Num 100)\<rparr>"

definition threeLinesAnalysis :: BillData where
  "threeLinesAnalysis =
     emptyRecord\<lparr>phoneLines := Some [lineNo ''0'', lineNo ''1'', lineNo ''2''],
                 totalAmount := Some (Num 200)\<rparr>"

definition cheapAnalysis :: BillData where
  "cheapAnalysis = emptyRecord\<lparr>phoneLines := Some [lineNo ''0''], totalAmount := Some (Num 30)\<rparr>"

definition sampleEnv :: Env where
  "sampleEnv =
     \<lparr>toLocaleDateString_first = ''11/3/2026'', dateNow_toString = ''1793700000000'',
      toLocaleDateString_second = ''11/3/2026'',
      typeErrorMessage = ''Cannot read properties of undefined''\<rparr>"

text \<open>
  The value of a line's sub-field with every absent (or falsy) value read as 0, as the
  aggregator's contract words it.
\<close>

definition subField :: "(BillLineDetails \<Rightarrow> jsnum option) \<Rightarrow> PhoneLine \<Rightarrow> real" where
  "subField f line =
     (case details line of
        None \<Rightarrow> 0
      | Some d \<Rightarrow> (case f d of Some (Num x) \<Rightarrow> x | _ \<Rightarrow> 0))"

text \<open>The idle hook with its other cells set, and a record that names its OCR provider.\<close>

definition busyState :: HookState where
  "busyState =
     idleState\<lparr>fileSelected := True, isLoading := True, errorMessage := Some ''busy''\<rparr>"

definition textractRecord :: BillData where
  "textractRecord = emptyRecord\<lparr>ocrProvider := Some ''textract''\<rparr>"

text \<open>
  A record with the enhanced marker and an empty array of lines, and heaps that hold the
  sample records.
\<close>

definition markedRecord :: BillData where
  "markedRecord = emptyRecord\<lparr>billVersion := Some ''claude-parser-v1'', phoneLines := Some []\<rparr>"

definition markedHeap :: Heap where
  "markedHeap = [0 \<mapsto> markedRecord]"

definition emptyHeap :: Heap where
  "emptyHeap = [0 \<mapsto> emptyRecord]"

definition textractHeap :: Heap where
  "textractHeap = [0 \<mapsto> textractRecord]"

definition crowdedHeap :: Heap where
  "crowdedHeap = [0 \<mapsto> tenLinesRecord, 5 \<mapsto> emptyRecord]"

text \<open>The clock a day later, and later within the same stretch of \<open>Date.now()\<close>.\<close>

definition nextDayEnv :: Env where
  "nextDayEnv =
     sampleEnv\<lparr>toLocaleDateString_first := ''11/4/2026'', dateNow_toString := ''1793786400000'',
               toLocaleDateString_second := ''11/4/2026''\<rparr>"

definition sameMinuteEnv :: Env where
  "sameMinuteEnv =
     sampleEnv\<lparr>dateNow_toString := ''1793700054321'', typeErrorMessage := ''undefined is not an object''\<rparr>"

text \<open>The hook holding an analysis, as after \<open>setBillData\<close>.\<close>

definition withAnalysis :: "BillData \<Rightarrow> HookState" where
  "withAnalysis b = idleState\<lparr>billData := Some b\<rparr>"

text \<open>Observations of an analysis used in the statements below.\<close>

definition deviceNames :: "BillData \<Rightarrow> string option list option" where
  "deviceNames b = map_option (map deviceName) (phoneLines b)"

definition alternativeCosts :: "BillData \<Rightarrow> jsnum list option" where
  "alternativeCosts b =
     map_option (\<lambda>r. map monthlyCost (alternativePlans r)) (planRecommendation b)"

text \<open>
  The lines the standard branch holds before the cap: the raw lines, or the single
  placeholder when there are none, passed through the owner callback when the account
  names a customer.
\<close>

definition standardLines :: "BillData \<Rightarrow> PhoneLine list" where
  "standardLines r =
     (let ls0 = (case phoneLines r of
                   None \<Rightarrow> [placeholderLine r]
                 | Some ls \<Rightarrow> if ls = [] then [placeholderLine r] else ls)
      in if truthyStr (accountCustomerName r) then mapIndexed (ownerCallback r) 0 ls0 else ls0)"

text \<open>Overwriting the \<open>taxes\<close> and \<open>surcharges\<close> of every line that has details.\<close>

definition withTaxes :: "jsnum option \<Rightarrow> jsnum option \<Rightarrow> PhoneLine \<Rightarrow> PhoneLine" where
  "withTaxes t s line =
     line\<lparr>details := map_option (\<lambda>d. d\<lparr>taxes := t, surcharges := s\<rparr>) (details line)\<rparr>"

section \<open>The category aggregator computes the per-line sums\<close>

lemma orNum_zero: "orNum v (Num 0) = Num (case v of Some (Num x) \<Rightarrow> x | _ \<Rightarrow> 0)"
proof (cases v)
  case None
  then show ?thesis by simp
next
  case (Some n)
  then show ?thesis by (cases n) simp_all
qed

lemma forEachLine_sums:
  "forEachLine lines (Num a, Num b, Num c) =
     (Num (a + (\<Sum>l\<leftarrow>lines. subField planCost l - subField planDiscount l)),
      Num (b + (\<Sum>l\<leftarrow>lines. subField devicePayment l - subField deviceCredit l)),
      Num (c + (\<Sum>l\<leftarrow>lines. subField protection l)))"
proof (induction lines arbitrary: a b c)
  case Nil
  then show ?case by simp
next
  case (Cons line rest)
  show ?case
  proof (cases "details line")
    case None
    then show ?thesis using Cons.IH [of a b c] by (simp add: subField_def)
  next
    case (Some d)
    then show ?thesis
      by (simp add: Cons.IH subField_def orNum_zero Let_def add.assoc)
  qed
qed

lemma details_withTaxes:
  "details (withTaxes t s line) =
     map_option (\<lambda>d. d\<lparr>taxes := t, surcharges := s\<rparr>) (details line)"
  by (simp add: withTaxes_def)

lemma forEachLine_withTaxes:
  "forEachLine (map (withTaxes t s) lines) acc = forEachLine lines acc"
proof (induction lines arbitrary: acc)
  case Nil
  then show ?case by simp
next
  case (Cons line rest)
  obtain p d v where acc: "acc = (p, d, v)" by (cases acc) auto
  show ?case
    by (cases "details line") (simp_all add: acc Cons.IH details_withTaxes Let_def)
qed

text \<open>
  C6. For every array of phone lines, the empty one included, the aggregator returns
  "Plan Charges" as the sum of \<open>planCost - planDiscount\<close>, "Device Payments" as the sum
  of \<open>devicePayment - deviceCredit\<close>, "Services & Add-ons" as the sum of \<open>protection\<close>,
  every absent sub-field counting as 0, and "Taxes & Fees" as 0.08 times the sum of the
  other three; overwriting the lines' own \<open>taxes\<close> and \<open>surcharges\<close> changes nothing.
\<close>

theorem calculateChargesByCategory_sums:
  "calculateChargesByCategory lines =
     [(''Plan Charges'', Num (\<Sum>l\<leftarrow>lines. subField planCost l - subField planDiscount l)),
      (''Device Payments'',
         Num (\<Sum>l\<leftarrow>lines. subField devicePayment l - subField deviceCredit l)),
      (''Services & Add-ons'', Num (\<Sum>l\<leftarrow>lines. subField protection l)),
      (''Taxes & Fees'',
         Num (0.08 * ((\<Sum>l\<leftarrow>lines. subField planCost l - subField planDiscount l)
                    + (\<Sum>l\<leftarrow>lines. subField devicePayment l - subField deviceCredit l)
                    + (\<Sum>l\<leftarrow>lines. subField protection l))))]
   \<and> calculateChargesByCategory [] = zeroCategories
   \<and> calculateChargesByCategory (map (withTaxes t s) lines) = calculateChargesByCategory lines"
proof -
  have "calculateChargesByCategory (map (withTaxes t s) lines) = calculateChargesByCategory lines"
    by (simp add: calculateChargesByCategory_def forEachLine_withTaxes)
  moreover have "calculateChargesByCategory [] = zeroCategories"
    by (simp add: calculateChargesByCategory_def zeroCategories_def)
  ultimately show ?thesis
    using forEachLine_sums [of lines 0 0 0]
    by (simp add: calculateChargesByCategory_def)
qed

section \<open>The savings estimator\<close>

lemma calculateCarrierSavings_plan:
  assumes "billData st = Some b" and "carrierPlan cfg carrierId = Some plan"
  shows "calculateCarrierSavings cfg st carrierId =
     \<lparr>monthlySavings = js_sub (toNumber (totalAmount b)) (Num (44 * real (numberOfLines b))),
      annualSavings =
        js_mul (js_sub (toNumber (totalAmount b)) (Num (44 * real (numberOfLines b)))) (Num 12),
      quote_planName = plan_name plan,
      price = Num (44 * real (numberOfLines b))\<rparr>"
  using assms by (simp add: calculateCarrierSavings_def Let_def)

lemma carrierPlan_verizon:
  "carrierPlan cfg ''verizon'' =
     (case findBestCarrierMatch cfg ''verizon'' of
        None \<Rightarrow> None
      | Some pid \<Rightarrow> find (\<lambda>plan. plan_id plan = pid) (alternativeCarrierPlans cfg))"
  by (simp add: carrierPlan_def matchingPlanId_def premiumPlans_def objectPrototypeKeys_def)

lemma carrierPlan_sample_warp:
  "carrierPlan sampleConfig ''warp'' = Some \<lparr>plan_id = ''warp-premium'', plan_name = ''Warp''\<rparr>"
  by (simp add: carrierPlan_def matchingPlanId_def premiumPlans_def sampleConfig_def)

text \<open>
  Manual entry stores the lines it is given, with no placeholder and no cap, so an
  analysis with an empty \<open>phoneLines\<close> array reaches the estimator.
\<close>

lemma addManualLineCharges_lines:
  assumes "phoneLines manualData = Some ls"
  shows "\<exists>b. billData (addManualLineCharges env st manualData) = Some b
             \<and> phoneLines b = Some ls \<and> totalAmount b = totalAmount manualData"
  using assms by (simp add: addManualLineCharges_def manualEnhancedData_def Let_def)

text \<open>
  C8. For every carrier id, the estimator applied while no analysis is present returns
  the quote with both savings 0, plan name "N/A" and price 0.
\<close>

theorem calculateCarrierSavings_no_analysis:
  assumes "billData st = None"
  shows "calculateCarrierSavings cfg st carrierId =
     \<lparr>monthlySavings = Num 0, annualSavings = Num 0, quote_planName = ''N/A'', price = Num 0\<rparr>"
  using assms by (simp add: calculateCarrierSavings_def)

theorem calculateCarrierSavings_no_analysis_witness:
  "billData idleState = None
   \<and> calculateCarrierSavings sampleConfig idleState ''verizon'' =
       \<lparr>monthlySavings = Num 0, annualSavings = Num 0, quote_planName = ''N/A'', price = Num 0\<rparr>"
proof -
  have h: "billData idleState = None" by (simp add: idleState_def)
  show ?thesis
    using h calculateCarrierSavings_no_analysis [OF h, of sampleConfig "''verizon''"] by simp
qed

text \<open>
  C1, as amended. For every analysis with a resolvable carrier plan, the estimator
  returns price = 44 times \<open>n\<close>, where \<open>n\<close> is the length of the analysis's \<open>phoneLines\<close>,
  or 1 when \<open>phoneLines\<close> is empty or missing; monthlySavings = totalAmount - price and
  annualSavings = monthlySavings times 12, computed with JavaScript's operators. For a
  numeric totalAmount \<open>t\<close> the savings are \<open>t - 44 n\<close> and \<open>(t - 44 n) * 12\<close> whatever
  their sign: a negative value is returned as it is.
\<close>

theorem estimate_flat_rate:
  assumes "billData st = Some b" and "carrierPlan cfg carrierId = Some plan"
  shows "let n = (case phoneLines b of None \<Rightarrow> 1 | Some ls \<Rightarrow> max 1 (length ls));
             q = calculateCarrierSavings cfg st carrierId
         in price q = Num (44 * real n)
            \<and> monthlySavings q = js_sub (toNumber (totalAmount b)) (price q)
            \<and> annualSavings q = js_mul (monthlySavings q) (Num 12)
            \<and> quote_planName q = plan_name plan
            \<and> (\<forall>t. totalAmount b = Some (Num t) \<longrightarrow>
                   monthlySavings q = Num (t - 44 * real n)
                   \<and> annualSavings q = Num ((t - 44 * real n) * 12))"
proof -
  have n: "numberOfLines b = (case phoneLines b of None \<Rightarrow> 1 | Some ls \<Rightarrow> max 1 (length ls))"
    by (auto simp: numberOfLines_def max_def Suc_le_eq split: option.splits)
  show ?thesis
    unfolding Let_def calculateCarrierSavings_plan [OF assms] n [symmetric]
    by auto
qed

text \<open>One line on a 30 dollar bill: the quote is 44 with savings of -14 a month.\<close>

theorem estimate_flat_rate_witness:
  "billData (withAnalysis cheapAnalysis) = Some cheapAnalysis
   \<and> carrierPlan sampleConfig ''warp'' = Some \<lparr>plan_id = ''warp-premium'', plan_name = ''Warp''\<rparr>
   \<and> totalAmount cheapAnalysis = Some (Num 30)
   \<and> calculateCarrierSavings sampleConfig (withAnalysis cheapAnalysis) ''warp'' =
       \<lparr>monthlySavings = Num (- 14), annualSavings = Num (- 168),
        quote_planName = ''Warp'', price = Num 44\<rparr>"
proof -
  have h1: "billData (withAnalysis cheapAnalysis) = Some cheapAnalysis"
    by (simp add: withAnalysis_def)
  have h2: "totalAmount cheapAnalysis = Some (Num 30)"
    by (simp add: cheapAnalysis_def)
  have h3: "phoneLines cheapAnalysis = Some [lineNo ''0'']"
    by (simp add: cheapAnalysis_def)
  show ?thesis
    using estimate_flat_rate [OF h1 carrierPlan_sample_warp] h1 h2 h3 carrierPlan_sample_warp
    by (cases "calculateCarrierSavings sampleConfig (withAnalysis cheapAnalysis) ''warp''")
       (simp add: Let_def)
qed

text \<open>
  C1 as stated takes the number of lines to be the length of \<open>phoneLines\<close>. For an
  analysis with an empty \<open>phoneLines\<close> array that product is 0, and the estimator
  returns 44.
\<close>

theorem estimate_empty_lines_counterexample:
  "billData (withAnalysis noLinesAnalysis) = Some noLinesAnalysis
   \<and> phoneLines noLinesAnalysis = Some []
   \<and> carrierPlan sampleConfig ''warp'' = Some \<lparr>plan_id = ''warp-premium'', plan_name = ''Warp''\<rparr>
   \<and> price (calculateCarrierSavings sampleConfig (withAnalysis noLinesAnalysis) ''warp'') = Num 44
   \<and> price (calculateCarrierSavings sampleConfig (withAnalysis noLinesAnalysis) ''warp'')
       \<noteq> Num (44 * real (length ([] :: PhoneLine list)))"
proof -
  have h1: "billData (withAnalysis noLinesAnalysis) = Some noLinesAnalysis"
    by (simp add: withAnalysis_def)
  have h3: "phoneLines noLinesAnalysis = Some []"
    by (simp add: noLinesAnalysis_def)
  show ?thesis
    using h1 h3 carrierPlan_sample_warp
    by (simp add: calculateCarrierSavings_plan [OF h1 carrierPlan_sample_warp] numberOfLines_def)
qed

text \<open>
  C7. For every analysis present whose \<open>phoneLines\<close> has length 3, the estimator called
  with carrier id \<open>verizon\<close> returns price = 132 and monthlySavings = totalAmount - 132.
  \<open>verizon\<close> is not a key of \<open>premiumPlans\<close>, so the plan comes from the imported
  resolver and catalog; the statement is for every resolver and catalog that find a plan
  for \<open>verizon\<close>.
\<close>

theorem estimate_verizon_three_lines:
  assumes "billData st = Some b" and "phoneLines b = Some ls" and "length ls = 3"
    and "findBestCarrierMatch cfg ''verizon'' = Some pid"
    and "find (\<lambda>plan. plan_id plan = pid) (alternativeCarrierPlans cfg) = Some plan"
  shows "price (calculateCarrierSavings cfg st ''verizon'') = Num 132
         \<and> monthlySavings (calculateCarrierSavings cfg st ''verizon'')
             = js_sub (toNumber (totalAmount b)) (Num 132)"
proof -
  have "carrierPlan cfg ''verizon'' = Some plan"
    using assms(4,5) by (simp add: carrierPlan_verizon)
  moreover have "numberOfLines b = 3"
    using assms(2,3) by (simp add: numberOfLines_def)
  ultimately show ?thesis
    using calculateCarrierSavings_plan [OF assms(1), of cfg "''verizon''" plan] by simp
qed

theorem estimate_verizon_three_lines_witness:
  "billData (withAnalysis threeLinesAnalysis) = Some threeLinesAnalysis
   \<and> phoneLines threeLinesAnalysis = Some [lineNo ''0'', lineNo ''1'', lineNo ''2'']
   \<and> length [lineNo ''0'', lineNo ''1'', lineNo ''2''] = 3
   \<and> findBestCarrierMatch sampleConfig ''verizon'' = Some ''warp-premium''
   \<and> find (\<lambda>plan. plan_id plan = ''warp-premium'') (alternativeCarrierPlans sampleConfig)
       = Some \<lparr>plan_id = ''warp-premium'', plan_name = ''Warp''\<rparr>
   \<and> totalAmount threeLinesAnalysis = Some (Num 200)
   \<and> price (calculateCarrierSavings sampleConfig (withAnalysis threeLinesAnalysis) ''verizon'')
       = Num 132
   \<and> monthlySavings (calculateCarrierSavings sampleConfig (withAnalysis threeLinesAnalysis) ''verizon'')
       = Num 68"
proof -
  have h1: "billData (withAnalysis threeLinesAnalysis) = Some threeLinesAnalysis"
    by (simp add: withAnalysis_def)
  have h2: "phoneLines threeLinesAnalysis = Some [lineNo ''0'', lineNo ''1'', lineNo ''2'']"
    by (simp add: threeLinesAnalysis_def)
  have h3: "length [lineNo ''0'', lineNo ''1'', lineNo ''2''] = 3" by simp
  have h4: "findBestCarrierMatch sampleConfig ''verizon'' = Some ''warp-premium''"
    by (simp add: sampleConfig_def)
  have h5: "find (\<lambda>plan. plan_id plan = ''warp-premium'') (alternativeCarrierPlans sampleConfig)
       = Some \<lparr>plan_id = ''warp-premium'', plan_name = ''Warp''\<rparr>"
    by (simp add: sampleConfig_def)
  have h6: "totalAmount threeLinesAnalysis = Some (Num 200)"
    by (simp add: threeLinesAnalysis_def)
  show ?thesis
    using estimate_verizon_three_lines [OF h1 h2 h3 h4 h5] h1 h2 h4 h5 h6 by simp
qed

text \<open>
  C10. When the analysis has an empty or missing \<open>phoneLines\<close> array, the number of lines
  is taken as 1: with a resolvable plan the price is 44, not 0, and
  monthlySavings = totalAmount - 44.
\<close>

theorem estimate_no_lines_counts_one:
  assumes "billData st = Some b" and "phoneLines b = None \<or> phoneLines b = Some []"
    and "carrierPlan cfg carrierId = Some plan"
  shows "price (calculateCarrierSavings cfg st carrierId) = Num 44
         \<and> monthlySavings (calculateCarrierSavings cfg st carrierId)
             = js_sub (toNumber (totalAmount b)) (Num 44)"
proof -
  have "numberOfLines b = 1"
    using assms(2) by (auto simp: numberOfLines_def)
  then show ?thesis
    using calculateCarrierSavings_plan [OF assms(1,3)] by simp
qed

theorem estimate_no_lines_counts_one_witness:
  "billData (withAnalysis noLinesAnalysis) = Some noLinesAnalysis
   \<and> (phoneLines noLinesAnalysis = None \<or> phoneLines noLinesAnalysis = Some [])
   \<and> carrierPlan sampleConfig ''warp'' = Some \<lparr>plan_id = ''warp-premium'', plan_name = ''Warp''\<rparr>
   \<and> totalAmount noLinesAnalysis = Some (Num 100)
   \<and> price (calculateCarrierSavings sampleConfig (withAnalysis noLinesAnalysis) ''warp'') = Num 44
   \<and> monthlySavings (calculateCarrierSavings sampleConfig (withAnalysis noLinesAnalysis) ''warp'')
       = Num 56"
proof -
  have h1: "billData (withAnalysis noLinesAnalysis) = Some noLinesAnalysis"
    by (simp add: withAnalysis_def)
  have h2: "phoneLines noLinesAnalysis = None \<or> phoneLines noLinesAnalysis = Some []"
    by (simp add: noLinesAnalysis_def)
  have h3: "totalAmount noLinesAnalysis = Some (Num 100)"
    by (simp add: noLinesAnalysis_def)
  show ?thesis
    using estimate_no_lines_counts_one [OF h1 h2 carrierPlan_sample_warp] h1 h2 h3
      carrierPlan_sample_warp
    by simp
qed

section \<open>The normalizer\<close>

lemma mapIndexed_Suc: "mapIndexed (ownerCallback r) (Suc i) ls = ls"
  by (induction ls arbitrary: i) (simp_all add: ownerCallback_def)

lemma mapIndexed_Nil_iff: "mapIndexed f i ls = [] \<longleftrightarrow> ls = []"
  by (cases ls) simp_all

lemma addPlaceholder_fields:
  "totalAmount (addPlaceholder r) = totalAmount r"
  "accountInfo (addPlaceholder r) = accountInfo r"
  "chargesByCategory (addPlaceholder r) = chargesByCategory r"
  "upcomingChanges (addPlaceholder r) = upcomingChanges r"
  "ocrProvider (addPlaceholder r) = ocrProvider r"
  by (simp_all add: addPlaceholder_def split: option.splits)

lemma accountCustomerName_addPlaceholder:
  "accountCustomerName (addPlaceholder r) = accountCustomerName r"
  by (simp add: accountCustomerName_def addPlaceholder_fields)

lemma ownerCallback_addPlaceholder: "ownerCallback (addPlaceholder r) = ownerCallback r"
  by (intro ext) (simp add: ownerCallback_def accountCustomerName_addPlaceholder)

lemma defaultPlanRecommendation_addPlaceholder:
  "defaultPlanRecommendation (addPlaceholder r) = defaultPlanRecommendation r"
  by (simp add: defaultPlanRecommendation_def addPlaceholder_fields)

lemma addPlaceholder_lines:
  "phoneLines (addPlaceholder r) =
     Some (case phoneLines r of None \<Rightarrow> [placeholderLine r]
           | Some ls \<Rightarrow> if ls = [] then [placeholderLine r] else ls)"
  by (simp add: addPlaceholder_def split: option.splits)

lemma phoneLines_standardDefaults: "phoneLines (standardDefaults st r) = phoneLines r"
  by (simp add: standardDefaults_def)

lemma phoneLines_assignCustomerName:
  "phoneLines (assignCustomerName r e) =
     (if truthyStr (accountCustomerName r)
      then map_option (mapIndexed (ownerCallback r) 0) (phoneLines e) else phoneLines e)"
  by (simp add: assignCustomerName_def split: option.splits)

lemma phoneLines_copyUpcomingChanges: "phoneLines (copyUpcomingChanges r e) = phoneLines e"
  by (simp add: copyUpcomingChanges_def split: option.splits)

lemma phoneLines_standardCategories: "phoneLines (standardCategories r e) = phoneLines e"
  by (simp add: standardCategories_def split: option.splits)

lemma phoneLines_substituteCannedLines:
  "phoneLines (substituteCannedLines e) =
     Some (case phoneLines e of None \<Rightarrow> cannedLines
           | Some ls \<Rightarrow> if ls = [] then cannedLines else ls)"
  by (simp add: substituteCannedLines_def split: option.splits)

lemma capPhoneLines_Some:
  "phoneLines e = Some ls \<Longrightarrow> capPhoneLines e = Inr (e\<lparr>phoneLines := Some (capLines ls)\<rparr>)"
  by (simp add: capPhoneLines_def)

lemma standardLines_nonempty: "standardLines r \<noteq> []"
  by (simp add: standardLines_def Let_def mapIndexed_Nil_iff split: option.splits)

text \<open>Fields other than the lines pass through the steps that do not assign them.\<close>

lemma chargesByCategory_steps:
  "chargesByCategory (substituteCannedLines e) = chargesByCategory e"
  "chargesByCategory (standardCategories r e) =
     (case chargesByCategory r of None \<Rightarrow> chargesByCategory e | Some c \<Rightarrow> Some (legacyCategories c))"
  "chargesByCategory (copyUpcomingChanges r e) = chargesByCategory e"
  "chargesByCategory (assignCustomerName r e) = chargesByCategory e"
  "chargesByCategory (standardDefaults st r) = chargesByCategory r"
  by (simp_all add: substituteCannedLines_def standardCategories_def copyUpcomingChanges_def
      assignCustomerName_def standardDefaults_def split: option.splits)

lemma ocrProvider_steps:
  "ocrProvider (substituteCannedLines e) = ocrProvider e"
  "ocrProvider (standardCategories r e) = ocrProvider e"
  "ocrProvider (copyUpcomingChanges r e) = ocrProvider e"
  "ocrProvider (assignCustomerName r e) = ocrProvider e"
  "ocrProvider (standardDefaults st r) =
     Some (orStr (ocrProvider r) (orStr (hook_ocrProvider st) ''standard''))"
  by (simp_all add: substituteCannedLines_def standardCategories_def copyUpcomingChanges_def
      assignCustomerName_def standardDefaults_def split: option.splits)

lemma planRecommendation_steps:
  "planRecommendation (substituteCannedLines e) = planRecommendation e"
  "planRecommendation (standardCategories r e) = planRecommendation e"
  "planRecommendation (copyUpcomingChanges r e) = planRecommendation e"
  "planRecommendation (assignCustomerName r e) = planRecommendation e"
  "planRecommendation (standardDefaults st r) = Some (defaultPlanRecommendation r)"
  by (simp_all add: substituteCannedLines_def standardCategories_def copyUpcomingChanges_def
      assignCustomerName_def standardDefaults_def split: option.splits)

lemma totalAmount_steps:
  "totalAmount (substituteCannedLines e) = totalAmount e"
  "totalAmount (standardCategories r e) = totalAmount e"
  "totalAmount (copyUpcomingChanges r e) = totalAmount e"
  "totalAmount (assignCustomerName r e) = totalAmount e"
  "totalAmount (standardDefaults st r) = totalAmount r"
  by (simp_all add: substituteCannedLines_def standardCategories_def copyUpcomingChanges_def
      assignCustomerName_def standardDefaults_def split: option.splits)

lemma enhanceStandard_result:
  "\<exists>out. enhanceStandard st r = Inr out
     \<and> phoneLines out = Some (capLines (standardLines r))
     \<and> chargesByCategory out = map_option legacyCategories (chargesByCategory r)
     \<and> ocrProvider out = Some (orStr (ocrProvider r) (orStr (hook_ocrProvider st) ''standard''))
     \<and> planRecommendation out = Some (defaultPlanRecommendation r)
     \<and> totalAmount out = totalAmount r"
proof -
  let ?e = "substituteCannedLines (standardCategories (addPlaceholder r)
              (copyUpcomingChanges (addPlaceholder r)
                 (assignCustomerName (addPlaceholder r) (standardDefaults st (addPlaceholder r)))))"
  have "phoneLines (assignCustomerName (addPlaceholder r) (standardDefaults st (addPlaceholder r)))
          = Some (standardLines r)"
    by (simp add: phoneLines_assignCustomerName phoneLines_standardDefaults addPlaceholder_lines
        accountCustomerName_addPlaceholder ownerCallback_addPlaceholder standardLines_def Let_def)
  then have lines: "phoneLines ?e = Some (standardLines r)"
    using standardLines_nonempty [of r]
    by (simp add: phoneLines_substituteCannedLines phoneLines_standardCategories
        phoneLines_copyUpcomingChanges)
  have cats: "chargesByCategory ?e = map_option legacyCategories (chargesByCategory r)"
    by (simp add: chargesByCategory_steps addPlaceholder_fields split: option.splits)
  have ocr: "ocrProvider ?e
               = Some (orStr (ocrProvider r) (orStr (hook_ocrProvider st) ''standard''))"
    by (simp add: ocrProvider_steps addPlaceholder_fields)
  have plan: "planRecommendation ?e = Some (defaultPlanRecommendation r)"
    by (simp add: planRecommendation_steps defaultPlanRecommendation_addPlaceholder)
  have total: "totalAmount ?e = totalAmount r"
    by (simp add: totalAmount_steps addPlaceholder_fields)
  have "enhanceStandard st r = Inr (?e\<lparr>phoneLines := Some (capLines (standardLines r))\<rparr>)"
    using lines by (simp add: enhanceStandard_def Let_def capPhoneLines_Some)
  then show ?thesis using cats ocr plan total by simp
qed

lemma enhanceClaude_result:
  assumes "phoneLines r = Some ls"
  shows "\<exists>out. enhanceClaude r = Inr out
     \<and> phoneLines out = Some (capLines ls)
     \<and> chargesByCategory out =
         Some (case chargesByCategory r of None \<Rightarrow> zeroCategories | Some c \<Rightarrow> legacyCategories c)
     \<and> ocrProvider out = Some (orStr (ocrProvider r) ''claude'')
     \<and> totalAmount out = Some (orNum (totalAmount r) (Num 0))"
proof -
  let ?e = "claudeCategories r (claudeDefaults r)"
  have lines: "phoneLines ?e = Some ls"
    using assms by (simp add: claudeCategories_def claudeDefaults_def split: option.splits)
  have cats: "chargesByCategory ?e =
         Some (case chargesByCategory r of None \<Rightarrow> zeroCategories | Some c \<Rightarrow> legacyCategories c)"
    by (simp add: claudeCategories_def claudeDefaults_def split: option.splits)
  have ocr: "ocrProvider ?e = Some (orStr (ocrProvider r) ''claude'')"
    by (simp add: claudeCategories_def claudeDefaults_def split: option.splits)
  have total: "totalAmount ?e = Some (orNum (totalAmount r) (Num 0))"
    by (simp add: claudeCategories_def claudeDefaults_def split: option.splits)
  have "enhanceClaude r = Inr (?e\<lparr>phoneLines := Some (capLines ls)\<rparr>)"
    using lines by (simp add: enhanceClaude_def capPhoneLines_Some)
  then show ?thesis using cats ocr total by simp
qed

lemma isEnhanced_lines: "isEnhanced r \<Longrightarrow> \<exists>ls. phoneLines r = Some ls \<and> ls \<noteq> []"
  by (auto simp: isEnhanced_def split: option.splits)

lemma length_capLines: "length (capLines ls) \<le> 8"
  by (simp add: capLines_def)

lemma capLines_long: "8 < length ls \<Longrightarrow> capLines ls = take 8 ls"
  by (simp add: capLines_def)

lemma standardLines_raw:
  assumes "phoneLines r = Some ls" and "ls \<noteq> []"
  shows "standardLines r =
     (if truthyStr (accountCustomerName r) \<and> \<not> truthyStr (ownerName (hd ls))
      then (hd ls)\<lparr>ownerName := accountCustomerName r\<rparr> # tl ls else ls)"
proof -
  obtain line rest where ls: "ls = line # rest" using assms(2) by (cases ls) auto
  show ?thesis
    using assms(1) by (simp add: standardLines_def ls Let_def mapIndexed_Suc ownerCallback_def)
qed

text \<open>
  C3. For every raw input the normalizer returns an analysis whose \<open>phoneLines\<close> has at
  most 8 entries; when the raw record carries more than 8 lines, the output holds exactly
  the first 8 in their original order. The cap is the last step, so the lines it keeps
  are the ones the earlier steps left: in the standard branch the first line has its
  missing \<open>ownerName\<close> filled from the account's customer name, and no other line or
  field differs from the raw record.
\<close>

theorem enhanceBillData_line_cap:
  "\<exists>out ls'. enhanceBillData st raw = Inr out \<and> phoneLines out = Some ls' \<and> length ls' \<le> 8
     \<and> (\<forall>ls. phoneLines raw = Some ls \<and> 8 < length ls \<longrightarrow>
           ls' = take 8 (if \<not> isEnhanced raw \<and> truthyStr (accountCustomerName raw)
                            \<and> \<not> truthyStr (ownerName (hd ls))
                         then (hd ls)\<lparr>ownerName := accountCustomerName raw\<rparr> # tl ls
                         else ls))"
proof (cases "isEnhanced raw")
  case True
  then obtain ls0 where ls0: "phoneLines raw = Some ls0" using isEnhanced_lines by blast
  from enhanceClaude_result [OF ls0] obtain out where
    out: "enhanceClaude raw = Inr out" "phoneLines out = Some (capLines ls0)" by blast
  show ?thesis
    using True out ls0 by (auto simp: enhanceBillData_def length_capLines capLines_long)
next
  case False
  from enhanceStandard_result [of st raw] obtain out where
    out: "enhanceStandard st raw = Inr out" "phoneLines out = Some (capLines (standardLines raw))"
    by blast
  have "capLines (standardLines raw) =
          take 8 (if truthyStr (accountCustomerName raw) \<and> \<not> truthyStr (ownerName (hd ls))
                  then (hd ls)\<lparr>ownerName := accountCustomerName raw\<rparr> # tl ls else ls)"
    if "phoneLines raw = Some ls" and "8 < length ls" for ls
  proof -
    have ne: "ls \<noteq> []" using that(2) by auto
    have "length (standardLines raw) = length ls"
      using ne by (simp add: standardLines_raw [OF that(1) ne])
    then show ?thesis
      using that(2) by (simp add: capLines_long standardLines_raw [OF that(1) ne])
  qed
  then show ?thesis
    using False out by (auto simp: enhanceBillData_def length_capLines)
qed

theorem enhanceBillData_line_cap_witness:
  "phoneLines tenLinesRecord = Some tenLines \<and> 8 < length tenLines
   \<and> map_sum id phoneLines (enhanceBillData idleState tenLinesRecord) =
       Inr (Some [lineNo ''0'', lineNo ''1'', lineNo ''2'', lineNo ''3'',
                  lineNo ''4'', lineNo ''5'', lineNo ''6'', lineNo ''7''])"
proof -
  have h1: "phoneLines tenLinesRecord = Some tenLines"
    by (simp add: tenLinesRecord_def emptyRecord_def)
  have h2: "8 < length tenLines"
    by (simp add: tenLines_def)
  have h3: "accountCustomerName tenLinesRecord = None"
    by (simp add: accountCustomerName_def tenLinesRecord_def emptyRecord_def)
  from enhanceBillData_line_cap [of idleState tenLinesRecord] obtain out ls' where
    out: "enhanceBillData idleState tenLinesRecord = Inr out" "phoneLines out = Some ls'"
    and cap: "\<forall>ls. phoneLines tenLinesRecord = Some ls \<and> 8 < length ls \<longrightarrow>
           ls' = take 8 (if \<not> isEnhanced tenLinesRecord
                            \<and> truthyStr (accountCustomerName tenLinesRecord)
                            \<and> \<not> truthyStr (ownerName (hd ls))
                         then (hd ls)\<lparr>ownerName := accountCustomerName tenLinesRecord\<rparr> # tl ls
                         else ls)"
    by blast
  from cap h1 h2 h3 have "ls' = take 8 tenLines" by simp
  then have "ls' = [lineNo ''0'', lineNo ''1'', lineNo ''2'', lineNo ''3'',
                    lineNo ''4'', lineNo ''5'', lineNo ''6'', lineNo ''7'']"
    by (simp add: tenLines_def)
  then show ?thesis using h1 h2 out by simp
qed

lemma not_isEnhanced_no_lines:
  "phoneLines r = None \<or> phoneLines r = Some [] \<Longrightarrow> \<not> isEnhanced r"
  by (auto simp: isEnhanced_def)

lemma standardLines_no_lines:
  assumes "phoneLines r = None \<or> phoneLines r = Some []"
  shows "standardLines r = [placeholderLine r]"
proof -
  have "truthyStr (ownerName (placeholderLine r))"
    by (cases "accountCustomerName r") (simp_all add: placeholderLine_def)
  then have "ownerCallback r (placeholderLine r) 0 = placeholderLine r"
    by (simp add: ownerCallback_def)
  then show ?thesis
    using assms by (auto simp: standardLines_def Let_def)
qed

text \<open>
  C5, as amended. For every raw record that has zero phone lines (the array absent or
  empty), with or without the enhanced marker, the normalizer's output contains exactly
  1 placeholder phone line, with device name "Smartphone", phone number "Primary Line"
  and charges scaled from the total amount (99.99 when there is none). The two canned
  lines "iPhone 15" and "iPhone 14" are substituted only when no line is left after
  that, which the placeholder rules out.
\<close>

theorem enhanceBillData_no_lines_placeholder:
  assumes "phoneLines raw = None \<or> phoneLines raw = Some []"
  shows "\<exists>out. enhanceBillData st raw = Inr out
           \<and> phoneLines out = Some [placeholderLine raw]
           \<and> deviceNames out = Some [Some ''Smartphone'']"
proof -
  from enhanceStandard_result [of st raw] obtain out where
    out: "enhanceStandard st raw = Inr out" "phoneLines out = Some (capLines (standardLines raw))"
    by blast
  have "capLines (standardLines raw) = [placeholderLine raw]"
    by (simp add: standardLines_no_lines [OF assms] capLines_def)
  then show ?thesis
    using out not_isEnhanced_no_lines [OF assms]
    by (simp add: enhanceBillData_def deviceNames_def placeholderLine_def)
qed

theorem enhanceBillData_no_lines_placeholder_witness:
  "(phoneLines emptyRecord = None \<or> phoneLines emptyRecord = Some [])
   \<and> map_sum id phoneLines (enhanceBillData idleState emptyRecord) =
       Inr (Some
         [\<lparr>phoneNumber = Some ''Primary Line'', deviceName = Some ''Smartphone'',
           ownerName = Some ''Primary Owner'', planName = Some ''Verizon Plan'',
           monthlyTotal = Some (Num 99.99),
           details = Some
             \<lparr>planCost = Some (Num 69.993), planDiscount = Some (Num 0),
              devicePayment = Some (Num 19.998), deviceCredit = Some (Num 0),
              protection = Some (Num 9.999),
              perks = None, perksDiscount = None, surcharges = None, taxes = None\<rparr>\<rparr>])"
proof -
  have h: "phoneLines emptyRecord = None \<or> phoneLines emptyRecord = Some []"
    by (simp add: emptyRecord_def)
  have t: "totalAmount emptyRecord = None" "accountCustomerName emptyRecord = None"
    by (simp_all add: emptyRecord_def accountCustomerName_def)
  from enhanceBillData_no_lines_placeholder [OF h, of idleState] obtain out where
    out: "enhanceBillData idleState emptyRecord = Inr out"
      "phoneLines out = Some [placeholderLine emptyRecord]"
    by blast
  show ?thesis
    using h out t by (simp add: placeholderLine_def)
qed

text \<open>
  C5 as stated expects two lines named "iPhone 15" and "iPhone 14". On the record \<open>{}\<close>,
  which has no lines and no marker, the output has the single line "Smartphone".
\<close>

theorem enhanceBillData_no_lines_counterexample:
  "phoneLines emptyRecord = None
   \<and> billVersion emptyRecord = None
   \<and> map_sum id deviceNames (enhanceBillData idleState emptyRecord)
       = Inr (Some [Some ''Smartphone''])
   \<and> map_sum id deviceNames (enhanceBillData idleState emptyRecord)
       \<noteq> Inr (Some [Some ''iPhone 15'', Some ''iPhone 14''])"
proof -
  have h: "phoneLines emptyRecord = None \<or> phoneLines emptyRecord = Some []"
    by (simp add: emptyRecord_def)
  from enhanceStandard_result [of idleState emptyRecord] obtain out where
    out: "enhanceStandard idleState emptyRecord = Inr out"
      "phoneLines out = Some (capLines (standardLines emptyRecord))"
    by blast
  have "capLines (standardLines emptyRecord) = [placeholderLine emptyRecord]"
    by (simp add: standardLines_no_lines [OF h] capLines_def)
  then have "map_sum id deviceNames (enhanceBillData idleState emptyRecord)
       = Inr (Some [Some ''Smartphone''])"
    using out not_isEnhanced_no_lines [OF h]
    by (simp add: enhanceBillData_def deviceNames_def placeholderLine_def)
  then show ?thesis by (simp add: emptyRecord_def)
qed

text \<open>
  C2, as amended. The normalizer does not recompute \<open>chargesByCategory\<close> from
  \<open>phoneLines\<close>. When the raw record carries a category object, the output's four
  categories are the raw values under the keys \<open>plans\<close>, \<open>devices\<close>, \<open>services\<close>,
  \<open>taxes\<close>, each replaced by 0 when absent or falsy (so a category object without those
  keys gives the all-zero map), whatever the phone lines are. When the raw record has no
  category object and is in enhanced format, the output is the all-zero map.
\<close>

theorem enhanceBillData_categories:
  "\<exists>out. enhanceBillData st raw = Inr out
     \<and> (\<forall>c. chargesByCategory raw = Some c \<longrightarrow>
           chargesByCategory out =
             Some [(''Plan Charges'', orNum (map_of c ''plans'') (Num 0)),
                   (''Device Payments'', orNum (map_of c ''devices'') (Num 0)),
                   (''Services & Add-ons'', orNum (map_of c ''services'') (Num 0)),
                   (''Taxes & Fees'', orNum (map_of c ''taxes'') (Num 0))])
     \<and> (chargesByCategory raw = None \<and> isEnhanced raw \<longrightarrow>
           chargesByCategory out =
             Some [(''Plan Charges'', Num 0), (''Device Payments'', Num 0),
                   (''Services & Add-ons'', Num 0), (''Taxes & Fees'', Num 0)])"
proof (cases "isEnhanced raw")
  case True
  then obtain ls0 where ls0: "phoneLines raw = Some ls0" using isEnhanced_lines by blast
  from enhanceClaude_result [OF ls0] obtain out where
    out: "enhanceClaude raw = Inr out"
      "chargesByCategory out =
         Some (case chargesByCategory raw of None \<Rightarrow> zeroCategories | Some c \<Rightarrow> legacyCategories c)"
    by blast
  show ?thesis
    using True out by (auto simp: enhanceBillData_def legacyCategories_def zeroCategories_def)
next
  case False
  from enhanceStandard_result [of st raw] obtain out where
    out: "enhanceStandard st raw = Inr out"
      "chargesByCategory out = map_option legacyCategories (chargesByCategory raw)"
    by blast
  show ?thesis
    using False out by (auto simp: enhanceBillData_def legacyCategories_def)
qed

theorem enhanceBillData_categories_witness:
  "chargesByCategory mismatchRecord = Some [(''plans'', Num 100)]
   \<and> map_sum id chargesByCategory (enhanceBillData idleState mismatchRecord) =
       Inr (Some [(''Plan Charges'', Num 100), (''Device Payments'', Num 0),
                  (''Services & Add-ons'', Num 0), (''Taxes & Fees'', Num 0)])
   \<and> chargesByCategory claudeRecord = None \<and> isEnhanced claudeRecord
   \<and> map_sum id chargesByCategory (enhanceBillData idleState claudeRecord) =
       Inr (Some [(''Plan Charges'', Num 0), (''Device Payments'', Num 0),
                  (''Services & Add-ons'', Num 0), (''Taxes & Fees'', Num 0)])"
proof -
  have h1: "chargesByCategory mismatchRecord = Some [(''plans'', Num 100)]"
    by (simp add: mismatchRecord_def)
  have h2: "chargesByCategory claudeRecord = None"
    by (simp add: claudeRecord_def emptyRecord_def)
  have h3: "isEnhanced claudeRecord"
    by (simp add: isEnhanced_def claudeRecord_def)
  from enhanceBillData_categories [of idleState mismatchRecord] h1 have
    "map_sum id chargesByCategory (enhanceBillData idleState mismatchRecord) =
       Inr (Some [(''Plan Charges'', Num 100), (''Device Payments'', Num 0),
                  (''Services & Add-ons'', Num 0), (''Taxes & Fees'', Num 0)])"
    by auto
  moreover from enhanceBillData_categories [of idleState claudeRecord] h2 h3 have
    "map_sum id chargesByCategory (enhanceBillData idleState claudeRecord) =
       Inr (Some [(''Plan Charges'', Num 0), (''Device Payments'', Num 0),
                  (''Services & Add-ons'', Num 0), (''Taxes & Fees'', Num 0)])"
    by auto
  ultimately show ?thesis using h1 h2 h3 by simp
qed

text \<open>
  C2 as stated makes every category total the sum over the lines. A record whose category
  object says 100 for plans and whose single line has a plan cost of 50 comes out with
  "Plan Charges" 100, while the aggregator gives 50 (and 4 for taxes) on the output's
  lines.
\<close>

theorem enhanceBillData_categories_counterexample:
  "map_sum id phoneLines (enhanceBillData idleState mismatchRecord) = Inr (Some [fiftyLine])
   \<and> calculateChargesByCategory [fiftyLine] =
       [(''Plan Charges'', Num 50), (''Device Payments'', Num 0),
        (''Services & Add-ons'', Num 0), (''Taxes & Fees'', Num 4)]
   \<and> map_sum id chargesByCategory (enhanceBillData idleState mismatchRecord) =
       Inr (Some [(''Plan Charges'', Num 100), (''Device Payments'', Num 0),
                  (''Services & Add-ons'', Num 0), (''Taxes & Fees'', Num 0)])
   \<and> map_sum id chargesByCategory (enhanceBillData idleState mismatchRecord)
       \<noteq> Inr (Some (calculateChargesByCategory [fiftyLine]))"
proof -
  have ne: "\<not> isEnhanced mismatchRecord"
    by (simp add: isEnhanced_def mismatchRecord_def emptyRecord_def)
  have lines: "standardLines mismatchRecord = [fiftyLine]"
    by (simp add: standardLines_def accountCustomerName_def mismatchRecord_def emptyRecord_def)
  have cats: "chargesByCategory mismatchRecord = Some [(''plans'', Num 100)]"
    by (simp add: mismatchRecord_def)
  have agg: "calculateChargesByCategory [fiftyLine] =
       [(''Plan Charges'', Num 50), (''Device Payments'', Num 0),
        (''Services & Add-ons'', Num 0), (''Taxes & Fees'', Num 4)]"
    by (simp add: calculateChargesByCategory_def fiftyLine_def lineNo_def emptyDetails_def)
  from enhanceStandard_result [of idleState mismatchRecord] obtain out where
    out: "enhanceStandard idleState mismatchRecord = Inr out"
      "phoneLines out = Some (capLines (standardLines mismatchRecord))"
      "chargesByCategory out = map_option legacyCategories (chargesByCategory mismatchRecord)"
    by blast
  show ?thesis
    using ne out lines cats agg
    by (simp add: enhanceBillData_def capLines_def legacyCategories_def)
qed

text \<open>
  C4. The claim is that the normalizer's output has no field left undefined and no NaN,
  every number derived from an absent raw value being defaulted to 0 before arithmetic.
  On the record \<open>{phoneLines: []}\<close> \<open>enhanceBillData\<close> returns an analysis whose
  alternative plan has \<open>monthlyCost = undefined * 0.9 = NaN\<close> and whose \<open>totalAmount\<close>
  is still undefined.
\<close>

theorem enhanceBillData_no_total_NaN:
  "phoneLines noLinesRecord = Some [] \<and> totalAmount noLinesRecord = None
   \<and> map_sum id alternativeCosts (enhanceBillData idleState noLinesRecord) = Inr (Some [NaN])
   \<and> map_sum id totalAmount (enhanceBillData idleState noLinesRecord) = Inr None"
proof -
  have h: "phoneLines noLinesRecord = None \<or> phoneLines noLinesRecord = Some []"
    by (simp add: noLinesRecord_def)
  have t: "totalAmount noLinesRecord = None"
    by (simp add: noLinesRecord_def emptyRecord_def)
  from enhanceStandard_result [of idleState noLinesRecord] obtain out where
    out: "enhanceStandard idleState noLinesRecord = Inr out"
      "planRecommendation out = Some (defaultPlanRecommendation noLinesRecord)"
      "totalAmount out = totalAmount noLinesRecord"
    by blast
  show ?thesis
    using out t not_isEnhanced_no_lines [OF h]
    by (simp add: enhanceBillData_def alternativeCosts_def defaultPlanRecommendation_def
        noLinesRecord_def)
qed

lemma enhanceStandard_same_ocrProvider:
  "hook_ocrProvider s1 = hook_ocrProvider s2 \<Longrightarrow> enhanceStandard s1 raw = enhanceStandard s2 raw"
  by (simp add: enhanceStandard_def standardDefaults_def)

lemma orStr_truthy: "truthyStr v \<Longrightarrow> orStr v d = orStr v d'"
  by (cases v) auto

lemma enhanceStandard_raw_ocrProvider:
  "truthyStr (ocrProvider raw) \<Longrightarrow> enhanceStandard s1 raw = enhanceStandard s2 raw"
  using orStr_truthy [of "ocrProvider raw" "orStr (hook_ocrProvider s1) ''standard''"
      "orStr (hook_ocrProvider s2) ''standard''"]
  by (simp add: enhanceStandard_def standardDefaults_def addPlaceholder_fields)

lemma enhanceBillData_call_value:
  "heap ref = Some r \<Longrightarrow> snd (enhanceBillData_call st heap ref) = enhanceBillData st r"
  by (simp add: enhanceBillData_call_def enhanceBillData_def)

lemma addPlaceholder_explicit:
  "addPlaceholder r =
     (if phoneLines r = None \<or> phoneLines r = Some []
      then r\<lparr>phoneLines := Some [placeholderLine r]\<rparr> else r)"
  by (auto simp: addPlaceholder_def split: option.splits)

lemma enhanceBillData_call_heap:
  assumes "heap ref = Some r"
  shows "fst (enhanceBillData_call st heap ref) =
     heap(ref \<mapsto> (if phoneLines r = None \<or> phoneLines r = Some []
                     then r\<lparr>phoneLines := Some [placeholderLine r]\<rparr> else r))"
proof (cases "isEnhanced r")
  case True
  then obtain ls where "phoneLines r = Some ls" "ls \<noteq> []" using isEnhanced_lines by blast
  then have "(if phoneLines r = None \<or> phoneLines r = Some []
                     then r\<lparr>phoneLines := Some [placeholderLine r]\<rparr> else r) = r" by simp
  moreover have "heap(ref \<mapsto> r) = heap" using assms by (simp add: fun_upd_idem)
  ultimately show ?thesis using True assms by (simp add: enhanceBillData_call_def)
next
  case False
  then show ?thesis
    using assms by (simp add: enhanceBillData_call_def addPlaceholder_explicit [symmetric])
qed

lemma enhanceBillData_same_ocrProvider:
  "hook_ocrProvider sa = hook_ocrProvider sb \<Longrightarrow> enhanceBillData sa raw = enhanceBillData sb raw"
  using enhanceStandard_same_ocrProvider [of sa sb raw] by (simp add: enhanceBillData_def)

lemma enhanceBillData_own_ocrProvider:
  "isEnhanced raw \<or> truthyStr (ocrProvider raw) \<Longrightarrow>
     enhanceBillData sa raw = enhanceBillData sb raw"
  using enhanceStandard_raw_ocrProvider [of raw sa sb] by (auto simp: enhanceBillData_def)

lemma manualEnhancedData_clock:
  assumes "toLocaleDateString_first ea = toLocaleDateString_first eb"
    and "take 6 (dateNow_toString ea) = take 6 (dateNow_toString eb)"
    and "toLocaleDateString_second ea = toLocaleDateString_second eb"
  shows "manualEnhancedData ea m = manualEnhancedData eb m"
  using assms by (simp add: manualEnhancedData_def Let_def split: option.splits)

lemma addManualLineCharges_billData:
  assumes "phoneLines m \<noteq> None"
  shows "billData (addManualLineCharges e st m) =
     (case manualEnhancedData e m of Inr d \<Rightarrow> Some d | Inl _ \<Rightarrow> None)"
  using assms by (auto simp: addManualLineCharges_def manualEnhancedData_def Let_def)

text \<open>
  C9, as amended. Normalization and estimation calls are determined by what they read,
  which is more than their argument, and normalization also writes. The value a call of
  \<open>enhanceBillData\<close> returns is determined by the contents of the raw record at the time
  of the call and by one cell of component state, the hook's \<open>ocrProvider\<close>: it is the
  same wherever the record is stored and whatever the other cells hold, and the cell
  itself does not matter when the record is in enhanced format or names its own
  \<open>ocrProvider\<close>. The call is not read-only: when the record has no phone lines it stores
  the single placeholder line in the caller's record, and it changes nothing else, so a
  later call on the same object reads that line. Manual entry on data that has a
  \<open>phoneLines\<close> array stores an analysis determined by the manual data and its clock
  readings (the two dates and the first six digits of \<open>Date.now()\<close>), whatever the hook
  held before. An estimation call depends
  only on the carrier id and the analysis held in \<open>billData\<close> (and the static catalog).
\<close>

theorem calls_read_record_cell_and_clock:
  "(heapa refa = heapb refb \<and> hook_ocrProvider sa = hook_ocrProvider sb \<longrightarrow>
      snd (enhanceBillData_call sa heapa refa) = snd (enhanceBillData_call sb heapb refb))
   \<and> (heapa refa = Some r \<and> heapb refb = Some r \<and> (isEnhanced r \<or> truthyStr (ocrProvider r)) \<longrightarrow>
      snd (enhanceBillData_call sa heapa refa) = snd (enhanceBillData_call sb heapb refb))
   \<and> (heap ref = Some raw \<longrightarrow>
      fst (enhanceBillData_call st heap ref) =
        heap(ref \<mapsto> (if phoneLines raw = None \<or> phoneLines raw = Some []
                        then raw\<lparr>phoneLines := Some [placeholderLine raw]\<rparr> else raw)))
   \<and> (toLocaleDateString_first ea = toLocaleDateString_first eb
       \<and> take 6 (dateNow_toString ea) = take 6 (dateNow_toString eb)
       \<and> toLocaleDateString_second ea = toLocaleDateString_second eb
       \<and> phoneLines m \<noteq> None \<longrightarrow>
      billData (addManualLineCharges ea sa m) = billData (addManualLineCharges eb sb m))
   \<and> (billData sa = billData sb \<longrightarrow>
      calculateCarrierSavings cfg sa carrierId = calculateCarrierSavings cfg sb carrierId)"
proof -
  have a: "snd (enhanceBillData_call sa heapa refa) = snd (enhanceBillData_call sb heapb refb)"
    if "heapa refa = heapb refb" and "hook_ocrProvider sa = hook_ocrProvider sb"
  proof (cases "heapa refa")
    case None
    then show ?thesis using that(1) by (simp add: enhanceBillData_call_def)
  next
    case (Some x)
    then show ?thesis
      using that enhanceBillData_same_ocrProvider [OF that(2), of x]
      by (simp add: enhanceBillData_call_value)
  qed
  have b: "snd (enhanceBillData_call sa heapa refa) = snd (enhanceBillData_call sb heapb refb)"
    if "heapa refa = Some r" and "heapb refb = Some r"
      and "isEnhanced r \<or> truthyStr (ocrProvider r)"
    using that enhanceBillData_own_ocrProvider [OF that(3), of sa sb]
    by (simp add: enhanceBillData_call_value)
  have c: "billData (addManualLineCharges ea sa m) = billData (addManualLineCharges eb sb m)"
    if "toLocaleDateString_first ea = toLocaleDateString_first eb"
      and "take 6 (dateNow_toString ea) = take 6 (dateNow_toString eb)"
      and "toLocaleDateString_second ea = toLocaleDateString_second eb"
      and "phoneLines m \<noteq> None"
    using manualEnhancedData_clock [OF that(1,2,3), of m]
    by (simp add: addManualLineCharges_billData [OF that(4)])
  have d: "calculateCarrierSavings cfg sa carrierId = calculateCarrierSavings cfg sb carrierId"
    if "billData sa = billData sb"
    using that by (simp add: calculateCarrierSavings_def)
  show ?thesis
    using a b c d enhanceBillData_call_heap [of heap ref raw st] by blast
qed

theorem calls_read_record_cell_and_clock_witness:
  "emptyHeap 0 = crowdedHeap 5 \<and> hook_ocrProvider idleState = hook_ocrProvider busyState
   \<and> snd (enhanceBillData_call idleState emptyHeap 0) = snd (enhanceBillData_call busyState crowdedHeap 5)
   \<and> textractHeap 0 = Some textractRecord \<and> truthyStr (ocrProvider textractRecord)
   \<and> hook_ocrProvider idleState \<noteq> hook_ocrProvider claudeState
   \<and> snd (enhanceBillData_call idleState textractHeap 0)
       = snd (enhanceBillData_call claudeState textractHeap 0)
   \<and> markedHeap 0 = Some markedRecord
   \<and> fst (enhanceBillData_call idleState markedHeap 0) 0
       = Some (markedRecord\<lparr>phoneLines := Some [placeholderLine markedRecord]\<rparr>)
   \<and> toLocaleDateString_first sampleEnv = toLocaleDateString_first sameMinuteEnv
   \<and> take 6 (dateNow_toString sampleEnv) = take 6 (dateNow_toString sameMinuteEnv)
   \<and> toLocaleDateString_second sampleEnv = toLocaleDateString_second sameMinuteEnv
   \<and> dateNow_toString sampleEnv \<noteq> dateNow_toString sameMinuteEnv
   \<and> phoneLines cheapAnalysis \<noteq> None
   \<and> billData (addManualLineCharges sampleEnv idleState cheapAnalysis)
       = billData (addManualLineCharges sameMinuteEnv claudeState cheapAnalysis)
   \<and> billData (withAnalysis cheapAnalysis) = billData ((withAnalysis cheapAnalysis)\<lparr>isLoading := True\<rparr>)
   \<and> calculateCarrierSavings sampleConfig (withAnalysis cheapAnalysis) ''warp''
       = calculateCarrierSavings sampleConfig ((withAnalysis cheapAnalysis)\<lparr>isLoading := True\<rparr>) ''warp''"
proof -
  have h1: "emptyHeap 0 = crowdedHeap 5"
    by (simp add: emptyHeap_def crowdedHeap_def)
  have h2: "hook_ocrProvider idleState = hook_ocrProvider busyState"
    by (simp add: busyState_def)
  have h3: "textractHeap 0 = Some textractRecord"
    by (simp add: textractHeap_def)
  have h4: "truthyStr (ocrProvider textractRecord)"
    by (simp add: textractRecord_def)
  have h5: "hook_ocrProvider idleState \<noteq> hook_ocrProvider claudeState"
    by (simp add: claudeState_def idleState_def)
  have h6: "markedHeap 0 = Some markedRecord"
    by (simp add: markedHeap_def)
  have h7: "phoneLines markedRecord = Some []"
    by (simp add: markedRecord_def)
  have h8: "toLocaleDateString_first sampleEnv = toLocaleDateString_first sameMinuteEnv"
    "take 6 (dateNow_toString sampleEnv) = take 6 (dateNow_toString sameMinuteEnv)"
    "toLocaleDateString_second sampleEnv = toLocaleDateString_second sameMinuteEnv"
    "dateNow_toString sampleEnv \<noteq> dateNow_toString sameMinuteEnv"
    by (simp_all add: sameMinuteEnv_def sampleEnv_def)
  have h9: "phoneLines cheapAnalysis \<noteq> None"
    by (simp add: cheapAnalysis_def)
  have h10: "billData (withAnalysis cheapAnalysis)
      = billData ((withAnalysis cheapAnalysis)\<lparr>isLoading := True\<rparr>)"
    by simp
  note t1 = calls_read_record_cell_and_clock
    [where sa = idleState and sb = busyState and heapa = emptyHeap and refa = 0
       and heapb = crowdedHeap and refb = 5 and heap = markedHeap and ref = 0
       and raw = markedRecord and st = idleState]
  note t2 = calls_read_record_cell_and_clock
    [where sa = idleState and sb = claudeState and heapa = textractHeap and refa = 0
       and heapb = textractHeap and refb = 0 and r = textractRecord
       and ea = sampleEnv and eb = sameMinuteEnv and m = cheapAnalysis]
  note t3 = calls_read_record_cell_and_clock
    [where sa = "withAnalysis cheapAnalysis"
       and sb = "(withAnalysis cheapAnalysis)\<lparr>isLoading := True\<rparr>"
       and cfg = sampleConfig and carrierId = "''warp''"]
  have a: "snd (enhanceBillData_call idleState emptyHeap 0)
      = snd (enhanceBillData_call busyState crowdedHeap 5)"
    using t1 h1 h2 by blast
  have b: "snd (enhanceBillData_call idleState textractHeap 0)
       = snd (enhanceBillData_call claudeState textractHeap 0)"
    using t2 h3 h4 by blast
  have "fst (enhanceBillData_call idleState markedHeap 0) =
        markedHeap(0 \<mapsto> (if phoneLines markedRecord = None \<or> phoneLines markedRecord = Some []
                        then markedRecord\<lparr>phoneLines := Some [placeholderLine markedRecord]\<rparr>
                        else markedRecord))"
    using t1 h6 by blast
  then have c: "fst (enhanceBillData_call idleState markedHeap 0) 0
       = Some (markedRecord\<lparr>phoneLines := Some [placeholderLine markedRecord]\<rparr>)"
    using h7 by simp
  have d: "billData (addManualLineCharges sampleEnv idleState cheapAnalysis)
       = billData (addManualLineCharges sameMinuteEnv claudeState cheapAnalysis)"
    using t2 h8 h9 by blast
  have e: "calculateCarrierSavings sampleConfig (withAnalysis cheapAnalysis) ''warp''
       = calculateCarrierSavings sampleConfig ((withAnalysis cheapAnalysis)\<lparr>isLoading := True\<rparr>) ''warp''"
    using t3 h10 by blast
  show ?thesis
    using h1 h2 h3 h4 h5 h6 h8 h9 h10 a b c d e by blast
qed

text \<open>
  C9 as stated makes every call's output a function of its argument alone. Three pairs
  of calls on identical input differ: the record \<open>{}\<close> is normalized to
  \<open>ocrProvider = "standard"\<close> in a fresh hook and to \<open>"claude"\<close> in a hook whose earlier
  upload stored that provider; the object \<open>{billVersion: "claude-parser-v1", phoneLines: []}\<close>
  normalized twice in the same hook gives \<open>"standard"\<close> with no total the first time and
  \<open>"claude"\<close> with total 0 the second, because the first call wrote the placeholder into
  it; and the same manual data entered a day later gets another billing period.
\<close>

theorem calls_not_stateless_counterexample:
  "map_sum id ocrProvider (snd (enhanceBillData_call idleState emptyHeap 0)) = Inr (Some ''standard'')
   \<and> map_sum id ocrProvider (snd (enhanceBillData_call claudeState emptyHeap 0)) = Inr (Some ''claude'')
   \<and> hook_ocrProvider (idleState) = None
   \<and> map_sum id ocrProvider (snd (enhanceBillData_call idleState markedHeap 0))
       = Inr (Some ''standard'')
   \<and> map_sum id ocrProvider
        (snd (enhanceBillData_call idleState (fst (enhanceBillData_call idleState markedHeap 0)) 0))
       = Inr (Some ''claude'')
   \<and> map_sum id totalAmount (snd (enhanceBillData_call idleState markedHeap 0)) = Inr None
   \<and> map_sum id totalAmount
        (snd (enhanceBillData_call idleState (fst (enhanceBillData_call idleState markedHeap 0)) 0))
       = Inr (Some (Num 0))
   \<and> map_option billingPeriod (billData (addManualLineCharges sampleEnv idleState cheapAnalysis))
       = Some (Some ''11/3/2026'')
   \<and> map_option billingPeriod (billData (addManualLineCharges nextDayEnv idleState cheapAnalysis))
       = Some (Some ''11/4/2026'')"
proof -
  have ne: "\<not> isEnhanced emptyRecord"
    by (simp add: isEnhanced_def emptyRecord_def)
  have o: "ocrProvider emptyRecord = None"
    by (simp add: emptyRecord_def)
  have nm: "\<not> isEnhanced markedRecord"
    by (simp add: isEnhanced_def markedRecord_def)
  have om: "ocrProvider markedRecord = None" "totalAmount markedRecord = None"
    by (simp_all add: markedRecord_def emptyRecord_def)
  from enhanceStandard_result [of idleState emptyRecord] obtain out1 where
    out1: "enhanceStandard idleState emptyRecord = Inr out1"
      "ocrProvider out1 = Some (orStr (ocrProvider emptyRecord)
                                 (orStr (hook_ocrProvider idleState) ''standard''))"
    by blast
  from enhanceStandard_result [of claudeState emptyRecord] obtain out2 where
    out2: "enhanceStandard claudeState emptyRecord = Inr out2"
      "ocrProvider out2 = Some (orStr (ocrProvider emptyRecord)
                                 (orStr (hook_ocrProvider claudeState) ''standard''))"
    by blast
  from enhanceStandard_result [of idleState markedRecord] obtain out3 where
    out3: "enhanceStandard idleState markedRecord = Inr out3"
      "ocrProvider out3 = Some (orStr (ocrProvider markedRecord)
                                 (orStr (hook_ocrProvider idleState) ''standard''))"
      "totalAmount out3 = totalAmount markedRecord"
    by blast
  let ?written = "markedRecord\<lparr>phoneLines := Some [placeholderLine markedRecord]\<rparr>"
  have heap1: "fst (enhanceBillData_call idleState markedHeap 0) 0 = Some ?written"
    using nm by (simp add: enhanceBillData_call_def markedHeap_def addPlaceholder_def markedRecord_def)
  have en: "isEnhanced ?written"
    by (simp add: isEnhanced_def markedRecord_def)
  have lines: "phoneLines ?written = Some [placeholderLine markedRecord]"
    by simp
  from enhanceClaude_result [OF lines] obtain out4 where
    out4: "enhanceClaude ?written = Inr out4"
      "ocrProvider out4 = Some (orStr (ocrProvider ?written) ''claude'')"
      "totalAmount out4 = Some (orNum (totalAmount ?written) (Num 0))"
    by blast
  have a: "map_sum id ocrProvider (snd (enhanceBillData_call idleState emptyHeap 0))
      = Inr (Some ''standard'')"
    using ne o out1 by (simp add: enhanceBillData_call_def emptyHeap_def idleState_def)
  have b: "map_sum id ocrProvider (snd (enhanceBillData_call claudeState emptyHeap 0))
      = Inr (Some ''claude'')"
    using ne o out2 by (simp add: enhanceBillData_call_def emptyHeap_def claudeState_def idleState_def)
  have c: "map_sum id ocrProvider (snd (enhanceBillData_call idleState markedHeap 0))
       = Inr (Some ''standard'')"
    "map_sum id totalAmount (snd (enhanceBillData_call idleState markedHeap 0)) = Inr None"
    using nm om out3 by (simp_all add: enhanceBillData_call_def markedHeap_def idleState_def)
  have d: "map_sum id ocrProvider
        (snd (enhanceBillData_call idleState (fst (enhanceBillData_call idleState markedHeap 0)) 0))
       = Inr (Some ''claude'')"
    "map_sum id totalAmount
        (snd (enhanceBillData_call idleState (fst (enhanceBillData_call idleState markedHeap 0)) 0))
       = Inr (Some (Num 0))"
    using en out4 om by (simp_all add: enhanceBillData_call_def [of idleState "fst _"] heap1)
  have e: "map_option billingPeriod (billData (addManualLineCharges sampleEnv idleState cheapAnalysis))
       = Some (Some ''11/3/2026'')"
    "map_option billingPeriod (billData (addManualLineCharges nextDayEnv idleState cheapAnalysis))
       = Some (Some ''11/4/2026'')"
    by (simp_all add: addManualLineCharges_def manualEnhancedData_def Let_def cheapAnalysis_def
        sampleEnv_def nextDayEnv_def)
  have f: "hook_ocrProvider idleState = None" by (simp add: idleState_def)
  show ?thesis using a b c d e f by simp
qed

end
